theory Spec2Isabelle
  imports Main "HOL-Library.Word"
begin

section \<open>Shared data of the exchange packages\<close>

text \<open>
  Go's \<open>int64\<close> and \<open>int32\<close> are words read in two's complement (\<open>sint\<close>);
  \<open>+\<close> wraps around as Go's does.
\<close>

type_synonym int64 = "64 word"
type_synonym int32 = "32 word"

text \<open>
  \<open>pair.CurrencyPair\<close>: the ordered pair of currency codes. The wrappers read the
  fields \<open>FirstCurrency\<close> and \<open>SecondCurrency\<close> and build pairs with
  \<open>pair.NewCurrencyPair\<close>.
\<close>

record CurrencyPair =
  FirstCurrency :: string
  SecondCurrency :: string

text \<open>
  The error values the wrappers return or compare. \<open>WarningHTTPRequestRateLimited\<close>
  is the sentinel of \<open>exchange.WarningHTTPRequestRateLimited()\<close>, compared with
  \<open>==\<close>; \<open>NumError\<close> is \<open>strconv.NumError\<close> with its function name, its input
  and its kind; \<open>ErrorString\<close> is an \<open>errors.New\<close> or \<open>fmt.Errorf\<close> value with its
  text; \<open>ExternalError\<close> is any error of a collaborator that is none of those.
\<close>

datatype NumErrorKind = ErrSyntax | ErrRange

datatype error =
    WarningHTTPRequestRateLimited
  | WarningAuthenticatedRequestWithoutCredentialsSet string
  | NumError string string NumErrorKind
  | ErrorString string
  | ExternalError string

text \<open>A call either returns or panics (\<open>panic("not implemented")\<close>, a nil dereference).\<close>

datatype 'a outcome = Return 'a | Panic string

subsection \<open>Decimal rendering of an \<open>int64\<close>: \<open>strconv.FormatInt(i, 10)\<close>\<close>

definition digit_char :: "nat \<Rightarrow> char" where
  "digit_char d = ''0123456789'' ! (d mod 10)"

function digits10 :: "nat \<Rightarrow> string" where
  "digits10 n = (if n < 10 then [digit_char n] else digits10 (n div 10) @ [digit_char (n mod 10)])"
  by pat_completeness auto
termination
  by (relation "measure id") auto

definition FormatInt :: "int64 \<Rightarrow> string" where
  "FormatInt i = (if sint i < 0 then CHR ''-'' # digits10 (nat (- sint i)) else digits10 (nat (sint i)))"

text \<open>Go's integer division truncates towards zero.\<close>

definition quo64 :: "int64 \<Rightarrow> int64 \<Rightarrow> int64" where
  "quo64 a b = word_of_int (sgn (sint a) * sgn (sint b) * (\<bar>sint a\<bar> div \<bar>sint b\<bar>))"

subsection \<open>Letter case of ASCII strings\<close>

text \<open>
  \<open>strings.ToLower\<close> and \<open>strings.ToUpper\<close> on the bytes of an ASCII string; a byte
  that is not an ASCII letter is left as it is. The two cases of a letter differ by 32,
  which is bit 5 of the byte.
\<close>

definition lower_char :: "char \<Rightarrow> char" where
  "lower_char c =
     (if 65 \<le> (of_char c :: nat) \<and> (of_char c :: nat) \<le> 90
      then Char (digit0 c) (digit1 c) (digit2 c) (digit3 c) (digit4 c) True (digit6 c) (digit7 c)
      else c)"

definition upper_char :: "char \<Rightarrow> char" where
  "upper_char c =
     (if 97 \<le> (of_char c :: nat) \<and> (of_char c :: nat) \<le> 122
      then Char (digit0 c) (digit1 c) (digit2 c) (digit3 c) (digit4 c) False (digit6 c) (digit7 c)
      else c)"

definition ToLower :: "string \<Rightarrow> string" where
  "ToLower s = map lower_char s"

definition ToUpper :: "string \<Rightarrow> string" where
  "ToUpper s = map upper_char s"


subsection \<open>\<open>strconv.ParseInt(s, 10, 64)\<close>\<close>

text \<open>
  The wrappers call \<open>ParseInt\<close> with base 10 and bit size 64 only. It returns a value
  and an error together: the value is 0 on a syntax error and the nearest bound on a
  range error. \<open>ParseUint\<close> reads the digits left to right and stops at the first byte
  that is no decimal digit, or as soon as the number leaves the 64-bit unsigned range.
\<close>

definition is_digit10 :: "char \<Rightarrow> bool" where
  "is_digit10 c = (48 \<le> (of_char c :: nat) \<and> (of_char c :: nat) \<le> 57)"

definition digit_of :: "char \<Rightarrow> nat" where
  "digit_of c = (of_char c :: nat) - 48"

definition maxUint64 :: nat where
  "maxUint64 = 2 ^ 64 - 1"

fun ParseUint_loop :: "string \<Rightarrow> nat \<Rightarrow> nat \<times> NumErrorKind option" where
  "ParseUint_loop [] n = (n, None)"
| "ParseUint_loop (c # cs) n =
     (if \<not> is_digit10 c then (0, Some ErrSyntax)
      else if n \<ge> maxUint64 div 10 + 1 then (maxUint64, Some ErrRange)
      else if n * 10 + digit_of c > maxUint64 then (maxUint64, Some ErrRange)
      else ParseUint_loop cs (n * 10 + digit_of c))"

definition ParseUint :: "string \<Rightarrow> nat \<times> NumErrorKind option" where
  "ParseUint s = (if s = [] then (0, Some ErrSyntax) else ParseUint_loop s 0)"

definition ParseInt :: "string \<Rightarrow> int64 \<times> error option" where
  "ParseInt s0 =
     (if s0 = [] then (0, Some (NumError ''ParseInt'' s0 ErrSyntax))
      else
        let neg = (hd s0 = CHR ''-'');
            s = (if hd s0 = CHR ''+'' \<or> hd s0 = CHR ''-'' then tl s0 else s0);
            (un, err) = ParseUint s
        in if err = Some ErrSyntax then (0, Some (NumError ''ParseInt'' s0 ErrSyntax))
           else if \<not> neg \<and> un \<ge> 2 ^ 63 then (word_of_int (2 ^ 63 - 1), Some (NumError ''ParseInt'' s0 ErrRange))
           else if neg \<and> un > 2 ^ 63 then (word_of_int (- (2 ^ 63)), Some (NumError ''ParseInt'' s0 ErrRange))
           else (if neg then - of_nat un else of_nat un, None))"

section \<open>Package \<open>pair\<close>: rendering a currency pair\<close>

text \<open>
  Modelled from the spec: \<open>CurrencyPair.Display(delimiter, uppercase)\<close> of package
  \<open>pair\<close>, whose file is not among the sources (only calls of it are). The
  specification has it render the pair with a delimiter and a case rule ("ETH/BTC",
  "ETHBTC"); the Binance wrapper keys its limits by \<open>Display("/", false)\<close> and
  documents those keys as lower-case.
\<close>

definition Display :: "CurrencyPair \<Rightarrow> string \<Rightarrow> bool \<Rightarrow> string" where
  "Display p delimiter uppercase =
     (let s = FirstCurrency p @ delimiter @ SecondCurrency p
      in if uppercase then ToUpper s else ToLower s)"

section \<open>Package \<open>orderbook\<close>: the market data cache\<close>

record 'q Item =
  Item_Price :: 'q
  Item_Amount :: 'q

record 'q orderbook_Base =
  Base_Bids :: "'q Item list"
  Base_Asks :: "'q Item list"

type_synonym 'q Orderbooks = "string \<times> CurrencyPair \<times> string \<rightharpoonup> 'q orderbook_Base"

text \<open>\<open>orderbook.Base{}\<close>, the zero value: a book with no bids and no asks.\<close>

definition zeroBase :: "'q orderbook_Base" where
  "zeroBase = \<lparr> Base_Bids = [], Base_Asks = [] \<rparr>"

text \<open>
  Modelled from the spec: \<open>Orderbooks.GetOrderbook\<close> and \<open>Orderbooks.ProcessOrderbook\<close>
  of package \<open>orderbook\<close>, whose file is not among the sources. The specification's
  cache keeps one snapshot per (exchange, pair, asset type); \<open>get\<close> gives the stored
  snapshot, or signals "not found" when none was stored (here the error, beside the
  zero book a Go function has to return with it); \<open>put\<close> replaces the snapshot of the
  key wholesale.
\<close>

definition GetOrderbook ::
  "'q Orderbooks \<Rightarrow> string \<Rightarrow> CurrencyPair \<Rightarrow> string \<Rightarrow> 'q orderbook_Base \<times> error option" where
  "GetOrderbook obs exchangeName p orderbookType =
     (case obs (exchangeName, p, orderbookType) of
        Some ob \<Rightarrow> (ob, None)
      | None \<Rightarrow> (zeroBase, Some (ErrorString ''orderbook not found'')))"

definition ProcessOrderbook ::
  "'q Orderbooks \<Rightarrow> string \<Rightarrow> CurrencyPair \<Rightarrow> 'q orderbook_Base \<Rightarrow> string \<Rightarrow> 'q Orderbooks" where
  "ProcessOrderbook obs exchangeName p ob orderbookType = obs((exchangeName, p, orderbookType) \<mapsto> ob)"

section \<open>Package \<open>exchange\<close>: what every driver embeds\<close>

text \<open>
  A call that leaves the process: an HTTP request through package \<open>common\<close>, or one of
  the REST bindings of Binance and Liqui whose files are not among the sources. A driver
  keeps the list of the calls it has made, oldest first; what the exchange answers is a
  parameter of the model and may depend on that list.
\<close>

datatype call =
    SendHTTPRequest string string "(string \<times> string) list" string
  | SendHTTPGetRequest string
  | FetchOpenOrdersCall string
  | FetchMarketDataCall string int
  | DeleteOrderCall string int64 string
  | GetDepthCall string

text \<open>
  The fields of \<open>exchange.Base\<close> the four drivers read or write. \<open>Nonce\<close> is the
  counter of the nonce sequencer, an \<open>int64\<close>; \<open>calls\<close> is the list above.
\<close>

record 'q exchange_Base =
  Name :: string
  Enabled :: bool
  Verbose :: bool
  AuthenticatedAPISupport :: bool
  APIKey :: string
  APISecret :: string
  APIUrl :: string
  Nonce :: int64
  Orderbooks :: "'q Orderbooks"
  calls :: "call list"

section \<open>Binance (\<open>binance_wrapper.go\<close>)\<close>

text \<open>
  The canonical order states of package \<open>exchange\<close>, and its order types; the zero value
  of the type is what a field holds that was never assigned.
\<close>

datatype exchange_OrderStatus =
    exchange_OrderStatusUnknown
  | exchange_OrderStatusActive
  | exchange_OrderStatusFilled
  | exchange_OrderStatusAborted

datatype exchange_OrderType = exchange_OrderTypeZero | exchange_OrderTypeExchangeLimit

text \<open>
  The raw Binance order, with the fields \<open>convertOrderToExchangeOrder\<close> reads.
  Quantities and prices are \<open>float64\<close> in the source; the model is generic in their
  type \<open>'q\<close> and takes the arithmetic done on them as parameters.
\<close>

record 'q Order =
  OrderID :: int64
  Symbol :: string
  Status :: string
  OrigQty :: 'q
  ExecutedQty :: 'q
  Price :: 'q
  Time :: int64
  Side :: string
  Type :: string

record 'q exchange_Order =
  Order_OrderID :: string
  Order_Status :: exchange_OrderStatus
  Order_Amount :: 'q
  Order_FilledAmount :: 'q
  Order_RemainingAmount :: 'q
  Order_Rate :: 'q
  Order_CreatedAt :: int64
  Order_CurrencyPair :: CurrencyPair
  Order_Side :: string
  Order_Type :: exchange_OrderType

record 'q MarketDataEntry =
  Entry_Price :: 'q
  Entry_Quantity :: 'q

record 'q MarketData =
  MarketData_Asks :: "'q MarketDataEntry list"
  MarketData_Bids :: "'q MarketDataEntry list"

record 'q symbolDetails =
  PriceDecimalPlaces :: int32
  AmountDecimalPlaces :: int32
  MinAmount :: 'q
  MinTotal :: 'q

record 'q Binance = "'q exchange_Base" +
  symbolDetailsMap :: "string \<rightharpoonup> 'q symbolDetails"

text \<open>
  What the wrapper uses and the sources do not hold: the raw status and order type
  constants of the Binance package (values of a string type), the decimal subtraction
  \<open>decimal.NewFromFloat(a).Sub(decimal.NewFromFloat(b)).Float64()\<close>, the comparison
  with \<open>0.0\<close>, the symbol conversions, and the answers of the exchange to the REST
  bindings \<open>FetchOpenOrders\<close>, \<open>FetchMarketData\<close> and \<open>DeleteOrder\<close> (given the calls made
  before). They are parameters of the model. \<open>FetchMarketData\<close> returns a pointer:
  \<open>None\<close> is nil.
\<close>

record 'q BinanceDeps =
  OrderStatusNew :: string
  OrderStatusPartial :: string
  OrderStatusFilled :: string
  OrderStatusCanceled :: string
  OrderStatusPendingCancel :: string
  OrderStatusRejected :: string
  OrderStatusExpired :: string
  OrderTypeLimit :: string
  decimalSub :: "'q \<Rightarrow> 'q \<Rightarrow> 'q"
  isZero :: "'q \<Rightarrow> bool"
  SymbolToCurrencyPair :: "string \<Rightarrow> CurrencyPair"
  CurrencyPairToSymbol :: "CurrencyPair \<Rightarrow> string"
  FetchOpenOrders_answer :: "call list \<Rightarrow> string \<Rightarrow> 'q Order list \<times> error option"
  FetchMarketData_answer :: "call list \<Rightarrow> string \<Rightarrow> int \<Rightarrow> 'q MarketData option \<times> error option"
  DeleteOrder_answer :: "call list \<Rightarrow> string \<Rightarrow> int64 \<Rightarrow> string \<Rightarrow> error option"

definition FetchOpenOrders ::
  "'q BinanceDeps \<Rightarrow> string \<Rightarrow> 'q Binance \<Rightarrow> ('q Order list \<times> error option) \<times> 'q Binance" where
  "FetchOpenOrders d symbol b =
     (FetchOpenOrders_answer d (calls b) symbol, b\<lparr>calls := calls b @ [FetchOpenOrdersCall symbol]\<rparr>)"

definition FetchMarketData ::
  "'q BinanceDeps \<Rightarrow> string \<Rightarrow> int \<Rightarrow> 'q Binance \<Rightarrow> ('q MarketData option \<times> error option) \<times> 'q Binance" where
  "FetchMarketData d symbol limit b =
     (FetchMarketData_answer d (calls b) symbol limit,
      b\<lparr>calls := calls b @ [FetchMarketDataCall symbol limit]\<rparr>)"

definition DeleteOrder ::
  "'q BinanceDeps \<Rightarrow> string \<Rightarrow> int64 \<Rightarrow> string \<Rightarrow> 'q Binance \<Rightarrow> error option \<times> 'q Binance" where
  "DeleteOrder d symbol orderID clientID b =
     (DeleteOrder_answer d (calls b) symbol orderID clientID,
      b\<lparr>calls := calls b @ [DeleteOrderCall symbol orderID clientID]\<rparr>)"

subsection \<open>The order normalizer\<close>

text \<open>
  The \<open>switch order.Status\<close> of \<open>convertOrderToExchangeOrder\<close>: the cases are tried in
  the order the source lists them.
\<close>

definition switchOrderStatus :: "'q BinanceDeps \<Rightarrow> string \<Rightarrow> exchange_OrderStatus" where
  "switchOrderStatus d raw =
     (if raw = OrderStatusCanceled d \<or> raw = OrderStatusPendingCancel d
         \<or> raw = OrderStatusExpired d \<or> raw = OrderStatusRejected d
      then exchange_OrderStatusAborted
      else if raw = OrderStatusFilled d then exchange_OrderStatusFilled
      else if raw = OrderStatusNew d \<or> raw = OrderStatusPartial d then exchange_OrderStatusActive
      else exchange_OrderStatusUnknown)"

definition convertOrderToExchangeOrder :: "'q BinanceDeps \<Rightarrow> 'q Order \<Rightarrow> 'q exchange_Order" where
  "convertOrderToExchangeOrder d order =
     (let remaining = decimalSub d (OrigQty order) (ExecutedQty order) in
      \<lparr> Order_OrderID = FormatInt (OrderID order),
        Order_Status = (if isZero d remaining then exchange_OrderStatusFilled
                        else switchOrderStatus d (Status order)),
        Order_Amount = OrigQty order,
        Order_FilledAmount = ExecutedQty order,
        Order_RemainingAmount = remaining,
        Order_Rate = Price order,
        Order_CreatedAt = quo64 (Time order) 1000,
        Order_CurrencyPair = SymbolToCurrencyPair d (Symbol order),
        Order_Side = ToLower (Side order),
        Order_Type = (if Type order = OrderTypeLimit d then exchange_OrderTypeExchangeLimit
                      else exchange_OrderTypeZero) \<rparr>)"

definition rawConstants :: "'q BinanceDeps \<Rightarrow> string list" where
  "rawConstants d =
     [OrderStatusCanceled d, OrderStatusPendingCancel d, OrderStatusExpired d,
      OrderStatusRejected d, OrderStatusFilled d, OrderStatusNew d, OrderStatusPartial d]"

subsection \<open>\<open>GetOrders\<close>\<close>

text \<open>
  The loop over the requested pairs, with its two variables: the number of rate-limited
  pairs and the orders collected. It stops at the first error that is not the sentinel.
\<close>

fun GetOrders_loop ::
  "'q BinanceDeps \<Rightarrow> CurrencyPair list \<Rightarrow> nat \<Rightarrow> 'q exchange_Order list \<Rightarrow> 'q Binance
   \<Rightarrow> (error + nat \<times> 'q exchange_Order list) \<times> 'q Binance" where
  "GetOrders_loop d [] rateLimitedPairCount ret b = (Inr (rateLimitedPairCount, ret), b)"
| "GetOrders_loop d (p # ps) rateLimitedPairCount ret b =
     (case FetchOpenOrders d (CurrencyPairToSymbol d p) b of
        ((orders, err), b') \<Rightarrow>
          if err = Some WarningHTTPRequestRateLimited
          then GetOrders_loop d ps (rateLimitedPairCount + 1)
                 (ret @ map (convertOrderToExchangeOrder d) orders) b'
          else (case err of
                  Some e \<Rightarrow> (Inl e, b')
                | None \<Rightarrow> GetOrders_loop d ps rateLimitedPairCount
                            (ret @ map (convertOrderToExchangeOrder d) orders) b'))"

text \<open>The result is the pair the source returns; \<open>None\<close> is the nil slice.\<close>

definition GetOrders ::
  "'q BinanceDeps \<Rightarrow> CurrencyPair list \<Rightarrow> 'q Binance
   \<Rightarrow> ('q exchange_Order list option \<times> error option) \<times> 'q Binance" where
  "GetOrders d pairs b =
     (if length pairs > 0 then
        (case GetOrders_loop d pairs 0 [] b of
           (Inl e, b') \<Rightarrow> ((None, Some e), b')
         | (Inr (rateLimitedPairCount, ret), b') \<Rightarrow>
             ((Some ret,
               if rateLimitedPairCount = length pairs then Some WarningHTTPRequestRateLimited
               else None), b'))
      else
        (case FetchOpenOrders d [] b of
           ((orders, err), b') \<Rightarrow>
             if err = Some WarningHTTPRequestRateLimited
             then ((Some (map (convertOrderToExchangeOrder d) orders), err), b')
             else (case err of
                     Some e \<Rightarrow> ((None, Some e), b')
                   | None \<Rightarrow> ((Some (map (convertOrderToExchangeOrder d) orders), None), b'))))"

subsection \<open>\<open>CancelOrder\<close>\<close>

definition Binance_CancelOrder ::
  "'q BinanceDeps \<Rightarrow> string \<Rightarrow> CurrencyPair \<Rightarrow> 'q Binance \<Rightarrow> error option \<times> 'q Binance" where
  "Binance_CancelOrder d orderID currencyPair b =
     (case ParseInt orderID of
        (ident, Some err) \<Rightarrow> (Some err, b)
      | (ident, None) \<Rightarrow> DeleteOrder d (CurrencyPairToSymbol d currencyPair) ident [] b)"

subsection \<open>The order book: \<open>GetOrderbookEx\<close> and \<open>UpdateOrderbook\<close>\<close>

definition Binance_UpdateOrderbook ::
  "'q BinanceDeps \<Rightarrow> CurrencyPair \<Rightarrow> string \<Rightarrow> 'q Binance
   \<Rightarrow> ('q orderbook_Base \<times> error option) outcome \<times> 'q Binance" where
  "Binance_UpdateOrderbook d p assetType b =
     (case FetchMarketData d (CurrencyPairToSymbol d p) 100 b of
        ((marketData, err), b1) \<Rightarrow>
          if err \<noteq> None \<and> err \<noteq> Some WarningHTTPRequestRateLimited
          then (Return (zeroBase, err), b1)
          else
            (case marketData of
               None \<Rightarrow> (Panic ''nil pointer dereference'', b1)
             | Some md \<Rightarrow>
                 let book = \<lparr> Base_Bids = map (\<lambda>x. \<lparr> Item_Price = Entry_Price x, Item_Amount = Entry_Quantity x \<rparr>)
                                             (MarketData_Bids md),
                              Base_Asks = map (\<lambda>x. \<lparr> Item_Price = Entry_Price x, Item_Amount = Entry_Quantity x \<rparr>)
                                             (MarketData_Asks md) \<rparr>;
                     b2 = b1\<lparr>Orderbooks := ProcessOrderbook (Orderbooks b1) (Name b1) p book assetType\<rparr>
                 in (Return (GetOrderbook (Orderbooks b2) (Name b2) p assetType), b2)))"

definition Binance_GetOrderbookEx ::
  "'q BinanceDeps \<Rightarrow> CurrencyPair \<Rightarrow> string \<Rightarrow> 'q Binance
   \<Rightarrow> ('q orderbook_Base \<times> error option) outcome \<times> 'q Binance" where
  "Binance_GetOrderbookEx d p assetType b =
     (case GetOrderbook (Orderbooks b) (Name b) p assetType of
        (ob, err) \<Rightarrow>
          if err = None then Binance_UpdateOrderbook d p assetType b
          else (Return (ob, None), b))"

subsection \<open>The limits\<close>

text \<open>
  \<open>currencyLimits\<close> of the Binance package: the map is \<open>symbolDetailsMap\<close>, filled by
  \<open>Run\<close> with one entry per symbol the exchange lists.
\<close>

record 'q currencyLimits =
  exchangeName :: string
  data :: "string \<rightharpoonup> 'q symbolDetails"

definition newCurrencyLimits :: "string \<Rightarrow> (string \<rightharpoonup> 'q symbolDetails) \<Rightarrow> 'q currencyLimits" where
  "newCurrencyLimits n m = \<lparr> exchangeName = n, data = m \<rparr>"

definition GetLimits :: "'q Binance \<Rightarrow> 'q currencyLimits" where
  "GetLimits b = newCurrencyLimits (Name b) (symbolDetailsMap b)"

definition GetPriceDecimalPlaces :: "'q currencyLimits \<Rightarrow> CurrencyPair \<Rightarrow> int32" where
  "GetPriceDecimalPlaces cl p =
     (case data cl (Display p ''/'' False) of Some v \<Rightarrow> PriceDecimalPlaces v | None \<Rightarrow> 0)"

definition GetAmountDecimalPlaces :: "'q currencyLimits \<Rightarrow> CurrencyPair \<Rightarrow> int32" where
  "GetAmountDecimalPlaces cl p =
     (case data cl (Display p ''/'' False) of Some v \<Rightarrow> AmountDecimalPlaces v | None \<Rightarrow> 0)"

section \<open>Liqui (the wrapper of package \<open>liqui\<close>)\<close>

text \<open>
  The depth the exchange answers with: rows of numbers, the price first and the amount
  second. \<open>FormatExchangeCurrency\<close> of package \<open>exchange\<close> and the answer of the REST
  binding \<open>GetDepth\<close> are parameters of the model.
\<close>

record 'q Depth =
  Depth_Asks :: "'q list list"
  Depth_Bids :: "'q list list"

record 'q LiquiDeps =
  FormatExchangeCurrency :: "string \<Rightarrow> CurrencyPair \<Rightarrow> string"
  GetDepth_answer :: "call list \<Rightarrow> string \<Rightarrow> 'q Depth \<times> error option"

type_synonym 'q Liqui = "'q exchange_Base"

definition GetDepth :: "'q LiquiDeps \<Rightarrow> string \<Rightarrow> 'q Liqui \<Rightarrow> ('q Depth \<times> error option) \<times> 'q Liqui" where
  "GetDepth d symbol l = (GetDepth_answer d (calls l) symbol, l\<lparr>calls := calls l @ [GetDepthCall symbol]\<rparr>)"

text \<open>
  \<open>orderbook.Item{Amount: data[1], Price: data[0]}\<close>: a row shorter than two numbers
  is an index out of range, and the call panics (\<open>None\<close>).
\<close>

fun rowItem :: "'q list \<Rightarrow> 'q Item option" where
  "rowItem (price # amount # rest) = Some \<lparr> Item_Price = price, Item_Amount = amount \<rparr>"
| "rowItem row = None"

fun rowItems :: "'q list list \<Rightarrow> 'q Item list option" where
  "rowItems [] = Some []"
| "rowItems (row # rows) =
     (case rowItem row of
        None \<Rightarrow> None
      | Some it \<Rightarrow> (case rowItems rows of None \<Rightarrow> None | Some its \<Rightarrow> Some (it # its)))"

definition Liqui_UpdateOrderbook ::
  "'q LiquiDeps \<Rightarrow> CurrencyPair \<Rightarrow> string \<Rightarrow> 'q Liqui
   \<Rightarrow> ('q orderbook_Base \<times> error option) outcome \<times> 'q Liqui" where
  "Liqui_UpdateOrderbook d p assetType l =
     (case GetDepth d (FormatExchangeCurrency d (Name l) p) l of
        ((orderbookNew, err), l1) \<Rightarrow>
          if err \<noteq> None then (Return (zeroBase, err), l1)
          else
            (case rowItems (Depth_Bids orderbookNew) of
               None \<Rightarrow> (Panic ''index out of range'', l1)
             | Some bids \<Rightarrow>
                 (case rowItems (Depth_Asks orderbookNew) of
                    None \<Rightarrow> (Panic ''index out of range'', l1)
                  | Some asks \<Rightarrow>
                      let orderBook = \<lparr> Base_Bids = bids, Base_Asks = asks \<rparr>;
                          l2 = l1\<lparr>Orderbooks := ProcessOrderbook (Orderbooks l1) (Name l1) p orderBook assetType\<rparr>
                      in (Return (GetOrderbook (Orderbooks l2) (Name l2) p assetType), l2))))"

definition Liqui_GetOrderbookEx ::
  "'q LiquiDeps \<Rightarrow> CurrencyPair \<Rightarrow> string \<Rightarrow> 'q Liqui
   \<Rightarrow> ('q orderbook_Base \<times> error option) outcome \<times> 'q Liqui" where
  "Liqui_GetOrderbookEx d p assetType l =
     (case GetOrderbook (Orderbooks l) (Name l) p assetType of
        (ob, err) \<Rightarrow>
          if err = None then Liqui_UpdateOrderbook d p assetType l
          else (Return (ob, None), l))"

section \<open>Package \<open>common\<close> and the standard library, as the Kraken and Gemini drivers use them\<close>

datatype HashType = HashSHA512 | HashSHA512_384

text \<open>A value put into a JSON request: the drivers put strings and \<open>int64\<close>s.\<close>

datatype jvalue = JString string | JInt int64

text \<open>\<open>url.Values\<close>: a map from a key to its list of values.\<close>

type_synonym Values = "string \<rightharpoonup> string list"

definition Values_Set :: "Values \<Rightarrow> string \<Rightarrow> string \<Rightarrow> Values" where
  "Values_Set v k x = v(k \<mapsto> [x])"

definition Values_Get :: "Values \<Rightarrow> string \<Rightarrow> string" where
  "Values_Get v k = (case v k of Some (x # xs) \<Rightarrow> x | _ \<Rightarrow> [])"

text \<open>The error payload the Gemini driver looks for in every answer.\<close>

record ErrorCapture =
  Capture_Result :: string
  Capture_Reason :: string
  Capture_Message :: string

text \<open>
  The encodings, hashes and decoders of package \<open>common\<close>, \<open>err.Error()\<close>,
  \<open>url.Values.Encode\<close>, \<open>json.Unmarshal\<close>, \<open>Nonce.GetValue\<close> of package \<open>nonce\<close>
  (given the clock, the counter and its two arguments, it yields the value and the new
  counter), and the answers of the exchange to an HTTP request (given the calls made
  before) are parameters of the model. \<open>'r\<close> is the type of the result a caller asks
  the answer to be decoded into.
\<close>

record 'r Common =
  Base64Encode :: "string \<Rightarrow> string"
  Base64Decode :: "string \<Rightarrow> string \<times> error option"
  GetSHA256 :: "string \<Rightarrow> string"
  GetHMAC :: "HashType \<Rightarrow> string \<Rightarrow> string \<Rightarrow> string"
  HexEncodeToString :: "string \<Rightarrow> string"
  JSONEncode :: "(string \<rightharpoonup> jvalue) \<Rightarrow> string \<times> error option"
  JSONDecode :: "string \<Rightarrow> error + 'r"
  JSONDecode_ErrorCapture :: "string \<Rightarrow> error + ErrorCapture"
  json_Unmarshal :: "string \<Rightarrow> error option"
  Values_Encode :: "Values \<Rightarrow> string"
  Error_text :: "error \<Rightarrow> string"
  Nonce_GetValue :: "int64 \<Rightarrow> int64 \<Rightarrow> string \<Rightarrow> bool \<Rightarrow> int64 \<times> int64"
  SendHTTPRequest_answer :: "call list \<Rightarrow> call \<Rightarrow> string \<times> error option"
  SendHTTPGetRequest_answer :: "call list \<Rightarrow> string \<Rightarrow> error + 'r"

definition Join :: "string list \<Rightarrow> string \<Rightarrow> string" where
  "Join xs sep = (case xs of [] \<Rightarrow> [] | y # ys \<Rightarrow> foldl (\<lambda>acc x. acc @ sep @ x) y ys)"

section \<open>Gemini (\<open>gemini.go\<close>)\<close>

definition geminiAPIURL :: string where
  "geminiAPIURL = ''https://api.gemini.com''"

definition geminiSandboxAPIURL :: string where
  "geminiSandboxAPIURL = ''https://api.sandbox.gemini.com''"

definition geminiAPIVersion :: string where
  "geminiAPIVersion = ''1''"

definition geminiOrderCancel :: string where
  "geminiOrderCancel = ''order/cancel''"

record 'q Gemini = "'q exchange_Base" +
  Role :: string
  RequiresHeartBeat :: bool

subsection \<open>The session registry\<close>

text \<open>
  \<open>Session\<close> is a package variable, a map from session id to \<open>*Gemini\<close>, nil until the
  first \<open>AddSession\<close>. A \<open>*Gemini\<close> is an address (\<open>None\<close> is nil) into the store of
  \<open>Gemini\<close> objects, so that two ids, or a caller and the registry, can share one object.
\<close>

record 'q GeminiPackage =
  Session :: "(int64 \<rightharpoonup> nat) option"
  store :: "nat \<Rightarrow> 'q Gemini"

definition AddSession ::
  "nat option \<Rightarrow> int64 \<Rightarrow> string \<Rightarrow> string \<Rightarrow> string \<Rightarrow> bool \<Rightarrow> bool \<Rightarrow> 'q GeminiPackage
   \<Rightarrow> error option outcome \<times> 'q GeminiPackage" where
  "AddSession g sessionID apiKey apiSecret role needsHeartbeat isSandbox st =
     (let m = (case Session st of None \<Rightarrow> Map.empty | Some m0 \<Rightarrow> m0);
          st1 = st\<lparr>Session := Some m\<rparr>
      in if m sessionID \<noteq> None
         then (Return (Some (ErrorString ''sessionID already being used'')), st1)
         else
           (case g of
              None \<Rightarrow> (Panic ''nil pointer dereference'', st1)
            | Some a \<Rightarrow>
                let obj = (store st1 a)
                      \<lparr>APIKey := apiKey, APISecret := apiSecret, Role := role,
                       RequiresHeartBeat := needsHeartbeat,
                       APIUrl := (if isSandbox then geminiSandboxAPIURL else geminiAPIURL)\<rparr>
                in (Return None,
                    st1\<lparr>store := (store st1)(a := obj), Session := Some (m(sessionID \<mapsto> a))\<rparr>)))"

subsection \<open>The limits\<close>

record 'q limitsInfo =
  limits_PriceDecimalPlaces :: int32
  limits_AmountDecimalPlaces :: int32
  limits_MinAmount :: 'q

record 'q Gemini_currencyLimits =
  info :: "string \<rightharpoonup> 'q limitsInfo"

text \<open>
  The table of \<open>newCurrencyLimits\<close>. \<open>lit m e\<close> is the \<open>float64\<close> of the decimal
  literal with mantissa \<open>m\<close> and exponent \<open>e\<close> (0.00001 is \<open>lit 1 (-5)\<close>).
\<close>

definition Gemini_newCurrencyLimits :: "(int \<Rightarrow> int \<Rightarrow> 'q) \<Rightarrow> 'q Gemini_currencyLimits" where
  "Gemini_newCurrencyLimits lit =
     \<lparr> info =
         [''BTCUSD'' \<mapsto> \<lparr> limits_PriceDecimalPlaces = 2, limits_AmountDecimalPlaces = 8,
                          limits_MinAmount = lit 1 (-5) \<rparr>,
          ''ETHUSD'' \<mapsto> \<lparr> limits_PriceDecimalPlaces = 2, limits_AmountDecimalPlaces = 6,
                          limits_MinAmount = lit 1 (-3) \<rparr>,
          ''ETHBTC'' \<mapsto> \<lparr> limits_PriceDecimalPlaces = 5, limits_AmountDecimalPlaces = 6,
                          limits_MinAmount = lit 1 (-3) \<rparr>] \<rparr>"

definition Gemini_GetPriceDecimalPlaces :: "'q Gemini_currencyLimits \<Rightarrow> CurrencyPair \<Rightarrow> int32" where
  "Gemini_GetPriceDecimalPlaces l p =
     (case info l (ToUpper (FirstCurrency p @ SecondCurrency p)) of
        Some v \<Rightarrow> limits_PriceDecimalPlaces v
      | None \<Rightarrow> - 1)"

definition Gemini_GetAmountDecimalPlaces :: "'q Gemini_currencyLimits \<Rightarrow> CurrencyPair \<Rightarrow> int32" where
  "Gemini_GetAmountDecimalPlaces l p =
     (case info l (ToUpper (FirstCurrency p @ SecondCurrency p)) of
        Some v \<Rightarrow> limits_AmountDecimalPlaces v
      | None \<Rightarrow> - 1)"

subsection \<open>Authenticated requests and \<open>CancelOrder\<close>\<close>

text \<open>
  \<open>SendAuthenticatedHTTPRequest\<close> returns an error and writes the decoded answer
  through \<open>result\<close>: \<open>Inr r\<close> is the nil error with \<open>r\<close> written, \<open>Inl e\<close> the error \<open>e\<close>.
  \<open>now\<close> is the reading of the clock at the call; \<open>params\<close> may be nil (\<open>None\<close>).
\<close>

definition Gemini_decode :: "'r Common \<Rightarrow> string \<Rightarrow> error + 'r" where
  "Gemini_decode c resp =
     (let decoded = JSONDecode c resp in
      case JSONDecode_ErrorCapture c resp of
        Inl e \<Rightarrow> decoded
      | Inr captureErr \<Rightarrow>
          if (length (Capture_Message captureErr) \<noteq> 0 \<or> length (Capture_Result captureErr) \<noteq> 0
              \<or> length (Capture_Reason captureErr) \<noteq> 0)
             \<and> Capture_Result captureErr \<noteq> ''ok''
          then Inl (ErrorString (Capture_Message captureErr))
          else decoded)"

definition Gemini_SendAuthenticatedHTTPRequest ::
  "'r Common \<Rightarrow> int64 \<Rightarrow> string \<Rightarrow> string \<Rightarrow> (string \<rightharpoonup> jvalue) option \<Rightarrow> 'q Gemini
   \<Rightarrow> (error + 'r) \<times> 'q Gemini" where
  "Gemini_SendAuthenticatedHTTPRequest c now meth path params g =
     (if \<not> AuthenticatedAPISupport g
      then (Inl (WarningAuthenticatedRequestWithoutCredentialsSet (Name g)), g)
      else
        (case Nonce_GetValue c now (Nonce g) (Name g) False of
           (nonceValue, counter) \<Rightarrow>
             let g1 = g\<lparr>Nonce := counter\<rparr>;
                 request0 = [''request'' \<mapsto> JString (''/v'' @ geminiAPIVersion @ ''/'' @ path),
                             ''nonce'' \<mapsto> JInt nonceValue];
                 request = (case params of None \<Rightarrow> request0 | Some m \<Rightarrow> request0 ++ m)
             in (case JSONEncode c request of
                   (PayloadJSON, Some e) \<Rightarrow>
                     (Inl (ErrorString ''SendAuthenticatedHTTPRequest: Unable to JSON request''), g1)
                 | (PayloadJSON, None) \<Rightarrow>
                     let PayloadBase64 = Base64Encode c PayloadJSON;
                         hmac = GetHMAC c HashSHA512_384 PayloadBase64 (APISecret g1);
                         headers = [(''X-GEMINI-APIKEY'', APIKey g1),
                                    (''X-GEMINI-PAYLOAD'', PayloadBase64),
                                    (''X-GEMINI-SIGNATURE'', HexEncodeToString c hmac)];
                         req = SendHTTPRequest meth (APIUrl g1 @ ''/v1/'' @ path) headers [];
                         g2 = g1\<lparr>calls := calls g1 @ [req]\<rparr>
                     in (case SendHTTPRequest_answer c (calls g1) req of
                           (resp, Some e) \<Rightarrow> (Inl e, g2)
                         | (resp, None) \<Rightarrow> (Gemini_decode c resp, g2)))))"

text \<open>\<open>CancelOrderEx\<close> returns the decoded order, or the zero order \<open>z\<close> with the error.\<close>

definition CancelOrderEx ::
  "'r Common \<Rightarrow> 'r \<Rightarrow> int64 \<Rightarrow> int64 \<Rightarrow> 'q Gemini \<Rightarrow> ('r \<times> error option) \<times> 'q Gemini" where
  "CancelOrderEx c z now orderID g =
     (case Gemini_SendAuthenticatedHTTPRequest c now ''POST'' geminiOrderCancel
             (Some [''order_id'' \<mapsto> JInt orderID]) g of
        (Inl err, g') \<Rightarrow> ((z, Some err), g')
      | (Inr response, g') \<Rightarrow> ((response, None), g'))"

definition Gemini_CancelOrder ::
  "'r Common \<Rightarrow> 'r \<Rightarrow> int64 \<Rightarrow> string \<Rightarrow> CurrencyPair \<Rightarrow> 'q Gemini \<Rightarrow> error option \<times> 'q Gemini" where
  "Gemini_CancelOrder c z now orderStr currencyPair g =
     (case ParseInt orderStr of
        (orderID, Some err) \<Rightarrow> (Some err, g)
      | (orderID, None) \<Rightarrow>
          (case CancelOrderEx c z now orderID g of ((response, err), g') \<Rightarrow> (err, g')))"

section \<open>Kraken (\<open>kraken.go\<close>)\<close>

definition KRAKEN_API_URL :: string where
  "KRAKEN_API_URL = ''https://api.kraken.com''"

definition KRAKEN_API_VERSION :: string where
  "KRAKEN_API_VERSION = ''0''"

definition KRAKEN_ORDER_CANCEL :: string where
  "KRAKEN_ORDER_CANCEL = ''CancelOrder''"

record 'q Kraken = "'q exchange_Base" +
  CryptoFee :: 'q
  FiatFee :: 'q

text \<open>The envelope of every Kraken answer; \<open>Response_Result\<close> is the raw JSON.\<close>

record Response =
  Response_Errors :: "string list"
  Response_Result :: string

text \<open>
  \<open>SendAuthenticatedHTTPRequest\<close>: the nonce is seeded from the clock (\<open>now\<close> is
  \<open>time.Now().UnixNano()\<close> at the call) when the counter is 0, and incremented
  otherwise (\<open>Nonce.Get\<close>, \<open>Nonce.Set\<close> and \<open>Nonce.Inc\<close> of package \<open>nonce\<close> read,
  write and increment the \<open>int64\<close> counter). The caller's \<open>values\<close> is a map, so the
  caller sees the nonce set in it: the model returns the map beside the result.
\<close>

definition Kraken_SendAuthenticatedHTTPRequest ::
  "'r Common \<Rightarrow> int64 \<Rightarrow> string \<Rightarrow> Values \<Rightarrow> 'q Kraken \<Rightarrow> ((error + 'r) \<times> Values) \<times> 'q Kraken" where
  "Kraken_SendAuthenticatedHTTPRequest c now meth vals k =
     (if \<not> AuthenticatedAPISupport k
      then ((Inl (WarningAuthenticatedRequestWithoutCredentialsSet (Name k)), vals), k)
      else
        let path = ''/'' @ KRAKEN_API_VERSION @ ''/private/'' @ meth;
            k1 = (if Nonce k = 0 then k\<lparr>Nonce := now\<rparr> else k\<lparr>Nonce := Nonce k + 1\<rparr>);
            vals1 = Values_Set vals ''nonce'' (FormatInt (Nonce k1))
        in (case Base64Decode c (APISecret k1) of
              (secret, Some e) \<Rightarrow> ((Inl e, vals1), k1)
            | (secret, None) \<Rightarrow>
                let shasum = GetSHA256 c (Values_Get vals1 ''nonce'' @ Values_Encode c vals1);
                    signature = Base64Encode c (GetHMAC c HashSHA512 (path @ shasum) secret);
                    headers = [(''API-Key'', APIKey k1), (''API-Sign'', signature)];
                    req = SendHTTPRequest ''POST'' (KRAKEN_API_URL @ path) headers (Values_Encode c vals1);
                    k2 = k1\<lparr>calls := calls k1 @ [req]\<rparr>
                in (case SendHTTPRequest_answer c (calls k1) req of
                      (resp, Some e) \<Rightarrow> ((Inl e, vals1), k2)
                    | (resp, None) \<Rightarrow>
                        (case JSONDecode c resp of
                           Inl e \<Rightarrow>
                             ((Inl (ErrorString (''Unable to JSON Unmarshal response.'' @ Error_text c e)),
                               vals1), k2)
                         | Inr r \<Rightarrow> ((Inr r, vals1), k2)))))"

text \<open>\<open>HTTPRequestJSON\<close> returns the raw result (\<open>None\<close> is nil) and an error.\<close>

definition HTTPRequestJSON_finish :: "Response \<Rightarrow> string option \<times> error option" where
  "HTTPRequestJSON_finish response =
     (if length (Response_Errors response) > 0
      then (Some (Response_Result response), Some (ErrorString (Join (Response_Errors response) [CHR 0x0A])))
      else (Some (Response_Result response), None))"

definition HTTPRequestJSON ::
  "Response Common \<Rightarrow> int64 \<Rightarrow> string \<Rightarrow> bool \<Rightarrow> Values \<Rightarrow> 'q Kraken
   \<Rightarrow> (string option \<times> error option) \<times> 'q Kraken" where
  "HTTPRequestJSON c now path auth vals k =
     (if auth then
        (case Kraken_SendAuthenticatedHTTPRequest c now path vals k of
           ((Inl err, vals'), k') \<Rightarrow> ((None, Some err), k')
         | ((Inr response, vals'), k') \<Rightarrow> (HTTPRequestJSON_finish response, k'))
      else
        (let k' = k\<lparr>calls := calls k @ [SendHTTPGetRequest path]\<rparr> in
         case SendHTTPGetRequest_answer c (calls k) path of
           Inl err \<Rightarrow> ((None, Some err), k')
         | Inr response \<Rightarrow> (HTTPRequestJSON_finish response, k')))"

definition HTTPRequest ::
  "Response Common \<Rightarrow> int64 \<Rightarrow> string \<Rightarrow> bool \<Rightarrow> Values \<Rightarrow> 'q Kraken \<Rightarrow> error option \<times> 'q Kraken" where
  "HTTPRequest c now path auth vals k =
     (case HTTPRequestJSON c now path auth vals k of
        ((result, Some err), k') \<Rightarrow> (Some err, k')
      | ((result, None), k') \<Rightarrow> (json_Unmarshal c (case result of None \<Rightarrow> [] | Some raw \<Rightarrow> raw), k'))"

definition cancelOrder ::
  "Response Common \<Rightarrow> int64 \<Rightarrow> int64 \<Rightarrow> 'q Kraken \<Rightarrow> error option outcome \<times> 'q Kraken" where
  "cancelOrder c now orderID k =
     (case HTTPRequest c now KRAKEN_ORDER_CANCEL True (Values_Set Map.empty ''txid'' (FormatInt orderID)) k of
        (Some err, k') \<Rightarrow> (Return (Some err), k')
      | (None, k') \<Rightarrow> (Panic ''not implemented'', k'))"

definition Kraken_CancelOrder ::
  "Response Common \<Rightarrow> int64 \<Rightarrow> string \<Rightarrow> 'q Kraken \<Rightarrow> error option outcome \<times> 'q Kraken" where
  "Kraken_CancelOrder c now orderStr k =
     (case ParseInt orderStr of
        (orderID, err) \<Rightarrow>
          if err = None then (Return err, k)
          else cancelOrder c now orderID k)"

text \<open>
  The nonces of a run: the authenticated requests of one credential, one after the
  other, each with the reading of the clock at its call; the list holds the counter
  after each request, which is the nonce the request was signed with.
\<close>

fun Kraken_nonces ::
  "'r Common \<Rightarrow> (int64 \<times> string \<times> Values) list \<Rightarrow> 'q Kraken \<Rightarrow> int64 list" where
  "Kraken_nonces c [] k = []"
| "Kraken_nonces c ((now, meth, vals) # rest) k =
     (case Kraken_SendAuthenticatedHTTPRequest c now meth vals k of
        (r, k') \<Rightarrow> Nonce k' # Kraken_nonces c rest k')"

section \<open>Concrete drivers and answers, for running the model\<close>

text \<open>
  The constants as the Binance REST interface spells them, exact arithmetic on integer
  quantities, and an exchange that lists one open order for ETHBTC, answers LTCBTC with
  the rate-limit sentinel (the binding then gives the orders of its last successful
  fetch), fails on any other symbol, and has no market data.
\<close>

definition order1 :: "int Order" where
  "order1 = \<lparr> OrderID = 7, Symbol = ''ETHBTC'', Status = ''PARTIALLY_FILLED'', OrigQty = 5,
              ExecutedQty = 5, Price = 2, Time = 1500000000999, Side = ''BUY'', Type = ''LIMIT'' \<rparr>"

definition order2 :: "int Order" where
  "order2 = \<lparr> OrderID = 8, Symbol = ''LTCBTC'', Status = ''NEW'', OrigQty = 3,
              ExecutedQty = 0, Price = 1, Time = 1500000001000, Side = ''SELL'', Type = ''LIMIT'' \<rparr>"

definition binanceApi :: "int BinanceDeps" where
  "binanceApi =
     \<lparr> OrderStatusNew = ''NEW'', OrderStatusPartial = ''PARTIALLY_FILLED'',
       OrderStatusFilled = ''FILLED'', OrderStatusCanceled = ''CANCELED'',
       OrderStatusPendingCancel = ''PENDING_CANCEL'', OrderStatusRejected = ''REJECTED'',
       OrderStatusExpired = ''EXPIRED'', OrderTypeLimit = ''LIMIT'',
       decimalSub = (\<lambda>a b. a - b), isZero = (\<lambda>a. a = 0),
       SymbolToCurrencyPair = (\<lambda>s. \<lparr> FirstCurrency = take 3 s, SecondCurrency = drop 3 s \<rparr>),
       CurrencyPairToSymbol = (\<lambda>p. FirstCurrency p @ SecondCurrency p),
       FetchOpenOrders_answer =
         (\<lambda>h symbol. if symbol = ''ETHBTC'' then ([order1], None)
                     else if symbol = ''LTCBTC'' then ([order2], Some WarningHTTPRequestRateLimited)
                     else ([], Some (ExternalError ''unknown symbol''))),
       FetchMarketData_answer = (\<lambda>h symbol limit. (None, Some (ExternalError ''no market data''))),
       DeleteOrder_answer = (\<lambda>h symbol ident clientID. None) \<rparr>"

definition exchange0 :: "string \<Rightarrow> bool \<Rightarrow> 'q exchange_Base" where
  "exchange0 n auth =
     \<lparr> Name = n, Enabled = True, Verbose = False, AuthenticatedAPISupport = auth,
       APIKey = ''key'', APISecret = ''c2VjcmV0'', APIUrl = [], Nonce = 0,
       Orderbooks = Map.empty, calls = [] \<rparr>"

definition binance0 :: "int Binance" where
  "binance0 = exchange_Base.extend (exchange0 ''Binance'' True) \<lparr> symbolDetailsMap = Map.empty \<rparr>"

definition ETHBTC :: CurrencyPair where
  "ETHBTC = \<lparr> FirstCurrency = ''ETH'', SecondCurrency = ''BTC'' \<rparr>"

definition LTCBTC :: CurrencyPair where
  "LTCBTC = \<lparr> FirstCurrency = ''LTC'', SecondCurrency = ''BTC'' \<rparr>"

definition liquiDeps :: "int LiquiDeps" where
  "liquiDeps =
     \<lparr> FormatExchangeCurrency = (\<lambda>n p. ToLower (FirstCurrency p @ ''_'' @ SecondCurrency p)),
       GetDepth_answer = (\<lambda>h symbol. (\<lparr> Depth_Asks = [[11, 1]], Depth_Bids = [[10, 2]] \<rparr>, None)) \<rparr>"

definition liqui0 :: "int Liqui" where
  "liqui0 = exchange0 ''Liqui'' True"

text \<open>
  A \<open>common\<close> whose encodings are the identity, whose decoder accepts every answer as
  an empty envelope, and an exchange that answers every request with \<open>{}\<close>.
\<close>

definition commonSim :: "Response Common" where
  "commonSim =
     \<lparr> Base64Encode = (\<lambda>s. s), Base64Decode = (\<lambda>s. (s, None)), GetSHA256 = (\<lambda>s. s),
       GetHMAC = (\<lambda>h msg key. msg), HexEncodeToString = (\<lambda>s. s),
       JSONEncode = (\<lambda>m. (''{}'', None)),
       JSONDecode = (\<lambda>s. Inr \<lparr> Response_Errors = [], Response_Result = s \<rparr>),
       JSONDecode_ErrorCapture = (\<lambda>s. Inr \<lparr> Capture_Result = [], Capture_Reason = [], Capture_Message = [] \<rparr>),
       json_Unmarshal = (\<lambda>s. None),
       Values_Encode = (\<lambda>v. ''nonce='' @ Values_Get v ''nonce'' @ ''&txid='' @ Values_Get v ''txid''),
       Error_text = (\<lambda>e. ''error''),
       Nonce_GetValue = (\<lambda>now n name nano. (n + 1, n + 1)),
       SendHTTPRequest_answer = (\<lambda>h req. (''{}'', None)),
       SendHTTPGetRequest_answer = (\<lambda>h path. Inr \<lparr> Response_Errors = [], Response_Result = ''{}'' \<rparr>) \<rparr>"

definition kraken0 :: "bool \<Rightarrow> int Kraken" where
  "kraken0 auth = exchange_Base.extend (exchange0 ''Kraken'' auth) \<lparr> CryptoFee = 0, FiatFee = 0 \<rparr>"

definition gemini0 :: "bool \<Rightarrow> int Gemini" where
  "gemini0 auth = exchange_Base.extend (exchange0 ''Gemini'' auth) \<lparr> Role = [], RequiresHeartBeat = False \<rparr>"

definition package0 :: "int GeminiPackage" where
  "package0 = \<lparr> Session = Some [1 \<mapsto> 0], store = (\<lambda>a. gemini0 False) \<rparr>"

section \<open>Notions the theorems are stated with\<close>

text \<open>
  The answers \<open>FetchOpenOrders\<close> gives when it is called for each symbol of a list in
  turn, and the errors that are neither nil nor the rate-limit sentinel.
\<close>

fun fetchEach :: "'q BinanceDeps \<Rightarrow> string list \<Rightarrow> 'q Binance \<Rightarrow> ('q Order list \<times> error option) list" where
  "fetchEach d [] b = []"
| "fetchEach d (symbol # symbols) b =
     (case FetchOpenOrders d symbol b of (r, b') \<Rightarrow> r # fetchEach d symbols b')"

definition hardError :: "error option \<Rightarrow> bool" where
  "hardError e = (e \<noteq> None \<and> e \<noteq> Some WarningHTTPRequestRateLimited)"

definition rateLimited :: "'q Order list \<times> error option \<Rightarrow> bool" where
  "rateLimited r = (snd r = Some WarningHTTPRequestRateLimited)"

text \<open>Strictly increasing, as signed 64-bit integers.\<close>

definition strictlyIncreasing :: "int64 list \<Rightarrow> bool" where
  "strictlyIncreasing ns = sorted_wrt (\<lambda>a b. sint a < sint b) ns"

definition fetched :: "'q BinanceDeps \<Rightarrow> CurrencyPair list \<Rightarrow> 'q Binance \<Rightarrow> ('q Order list \<times> error option) list" where
  "fetched d pairs b = fetchEach d (map (CurrencyPairToSymbol d) pairs) b"

section \<open>The order normalizer\<close>

text \<open>
  C7. The raw-to-canonical status mapping of the Binance normalizer is total and is the
  table of the specification: new and partially-filled give Active, filled gives Filled,
  canceled, pending-cancel, expired and rejected give Aborted, and a raw value that is
  none of the seven constants gives Unknown; so a raw value mapped to Active is new or
  partially-filled, also in the order the normalizer returns. The seven constants are
  distinct (Go refuses a switch that repeats a constant case).
\<close>

theorem switchOrderStatus_table:
  assumes "distinct (rawConstants d)"
  shows "switchOrderStatus d (OrderStatusNew d) = exchange_OrderStatusActive
       \<and> switchOrderStatus d (OrderStatusPartial d) = exchange_OrderStatusActive
       \<and> switchOrderStatus d (OrderStatusFilled d) = exchange_OrderStatusFilled
       \<and> switchOrderStatus d (OrderStatusCanceled d) = exchange_OrderStatusAborted
       \<and> switchOrderStatus d (OrderStatusPendingCancel d) = exchange_OrderStatusAborted
       \<and> switchOrderStatus d (OrderStatusExpired d) = exchange_OrderStatusAborted
       \<and> switchOrderStatus d (OrderStatusRejected d) = exchange_OrderStatusAborted
       \<and> (raw \<notin> set (rawConstants d) \<longrightarrow> switchOrderStatus d raw = exchange_OrderStatusUnknown)
       \<and> (switchOrderStatus d raw = exchange_OrderStatusActive
            \<longrightarrow> raw = OrderStatusNew d \<or> raw = OrderStatusPartial d)
       \<and> (Order_Status (convertOrderToExchangeOrder d order) = exchange_OrderStatusActive
            \<longrightarrow> Status order = OrderStatusNew d \<or> Status order = OrderStatusPartial d)"
proof -
  have ne: "OrderStatusNew d \<noteq> OrderStatusCanceled d" "OrderStatusNew d \<noteq> OrderStatusPendingCancel d"
    "OrderStatusNew d \<noteq> OrderStatusExpired d" "OrderStatusNew d \<noteq> OrderStatusRejected d"
    "OrderStatusNew d \<noteq> OrderStatusFilled d"
    "OrderStatusPartial d \<noteq> OrderStatusCanceled d" "OrderStatusPartial d \<noteq> OrderStatusPendingCancel d"
    "OrderStatusPartial d \<noteq> OrderStatusExpired d" "OrderStatusPartial d \<noteq> OrderStatusRejected d"
    "OrderStatusPartial d \<noteq> OrderStatusFilled d"
    "OrderStatusFilled d \<noteq> OrderStatusCanceled d" "OrderStatusFilled d \<noteq> OrderStatusPendingCancel d"
    "OrderStatusFilled d \<noteq> OrderStatusExpired d" "OrderStatusFilled d \<noteq> OrderStatusRejected d"
    using assms by (simp_all add: rawConstants_def) metis+
  have active: "switchOrderStatus d (OrderStatusNew d) = exchange_OrderStatusActive"
    "switchOrderStatus d (OrderStatusPartial d) = exchange_OrderStatusActive"
    using ne by (simp_all add: switchOrderStatus_def)
  have filled: "switchOrderStatus d (OrderStatusFilled d) = exchange_OrderStatusFilled"
    using ne by (simp add: switchOrderStatus_def)
  have aborted: "switchOrderStatus d (OrderStatusCanceled d) = exchange_OrderStatusAborted"
    "switchOrderStatus d (OrderStatusPendingCancel d) = exchange_OrderStatusAborted"
    "switchOrderStatus d (OrderStatusExpired d) = exchange_OrderStatusAborted"
    "switchOrderStatus d (OrderStatusRejected d) = exchange_OrderStatusAborted"
    by (simp_all add: switchOrderStatus_def)
  have unknown: "raw \<notin> set (rawConstants d) \<longrightarrow> switchOrderStatus d raw = exchange_OrderStatusUnknown"
    by (simp add: switchOrderStatus_def rawConstants_def)
  have only: "switchOrderStatus d r = exchange_OrderStatusActive
      \<longrightarrow> r = OrderStatusNew d \<or> r = OrderStatusPartial d" for r
    by (simp add: switchOrderStatus_def)
  have whole: "Order_Status (convertOrderToExchangeOrder d order) = exchange_OrderStatusActive
      \<longrightarrow> Status order = OrderStatusNew d \<or> Status order = OrderStatusPartial d"
    using only [of "Status order"]
    by (simp add: convertOrderToExchangeOrder_def Let_def split: if_splits)
  show ?thesis
    using active filled aborted unknown only [of raw] whole by blast
qed

theorem switchOrderStatus_table_witness:
  "distinct (rawConstants binanceApi)
   \<and> switchOrderStatus binanceApi ''NEW'' = exchange_OrderStatusActive
   \<and> switchOrderStatus binanceApi ''PARTIALLY_FILLED'' = exchange_OrderStatusActive
   \<and> switchOrderStatus binanceApi ''FILLED'' = exchange_OrderStatusFilled
   \<and> switchOrderStatus binanceApi ''CANCELED'' = exchange_OrderStatusAborted
   \<and> ''open'' \<notin> set (rawConstants binanceApi)
   \<and> switchOrderStatus binanceApi ''open'' = exchange_OrderStatusUnknown"
proof -
  have h: "distinct (rawConstants binanceApi)"
    by (simp add: rawConstants_def binanceApi_def)
  have n: "''open'' \<notin> set (rawConstants binanceApi)"
    by (simp add: rawConstants_def binanceApi_def)
  show ?thesis
    using h n switchOrderStatus_table [OF h, of "''open''"]
    by (simp add: binanceApi_def)
qed

text \<open>
  C3. Whenever the remaining amount the normalizer computes (amount minus filled amount)
  compares equal to zero, the canonical status is Filled, whatever the raw status says;
  the remaining amount of the order returned is that zero.
\<close>

theorem zero_remaining_forces_Filled:
  assumes "isZero d (decimalSub d (OrigQty order) (ExecutedQty order))"
  shows "Order_Status (convertOrderToExchangeOrder d order) = exchange_OrderStatusFilled
       \<and> isZero d (Order_RemainingAmount (convertOrderToExchangeOrder d order))"
  using assms by (simp add: convertOrderToExchangeOrder_def Let_def)

theorem zero_remaining_forces_Filled_witness:
  "isZero binanceApi (decimalSub binanceApi (OrigQty order1) (ExecutedQty order1))
   \<and> Status order1 = OrderStatusPartial binanceApi
   \<and> switchOrderStatus binanceApi (Status order1) = exchange_OrderStatusActive
   \<and> Order_Status (convertOrderToExchangeOrder binanceApi order1) = exchange_OrderStatusFilled"
proof -
  have h: "isZero binanceApi (decimalSub binanceApi (OrigQty order1) (ExecutedQty order1))"
    by (simp add: binanceApi_def order1_def)
  have s: "Status order1 = OrderStatusPartial binanceApi
      \<and> switchOrderStatus binanceApi (Status order1) = exchange_OrderStatusActive"
    by (simp add: binanceApi_def order1_def switchOrderStatus_def)
  show ?thesis
    using h s zero_remaining_forces_Filled [OF h] by blast
qed

section \<open>The limits\<close>

lemma Binance_limits_missing:
  assumes "data cl (Display p ''/'' False) = None"
  shows "GetPriceDecimalPlaces cl p = 0" and "GetAmountDecimalPlaces cl p = 0"
  using assms by (simp_all add: GetPriceDecimalPlaces_def GetAmountDecimalPlaces_def)

lemma Gemini_limits_missing:
  assumes "info l (ToUpper (FirstCurrency p @ SecondCurrency p)) = None"
  shows "Gemini_GetPriceDecimalPlaces l p = - 1" and "Gemini_GetAmountDecimalPlaces l p = - 1"
  using assms by (simp_all add: Gemini_GetPriceDecimalPlaces_def Gemini_GetAmountDecimalPlaces_def)

text \<open>
  C2. The Binance accessors at a pair with no entry in the limits data (here the limits
  of a driver whose \<open>Run\<close> has stored no symbol): both return 0, the value of "no
  decimal places", and not the sentinel -1 their comments announce and the Gemini
  accessors return (\<open>Gemini_limits_missing\<close>).
\<close>

theorem Binance_limits_missing_entry_gives_zero:
  "data (GetLimits binance0) (Display ETHBTC ''/'' False) = None
   \<and> GetPriceDecimalPlaces (GetLimits binance0) ETHBTC = 0
   \<and> GetAmountDecimalPlaces (GetLimits binance0) ETHBTC = 0
   \<and> GetPriceDecimalPlaces (GetLimits binance0) ETHBTC \<noteq> - 1"
  by (simp add: GetPriceDecimalPlaces_def GetAmountDecimalPlaces_def GetLimits_def
        newCurrencyLimits_def binance0_def exchange_Base.extend_def)

section \<open>The order book cache\<close>

lemma Liqui_GetOrderbookEx_hit:
  assumes "Orderbooks l (Name l, p, assetType) = Some ob"
  shows "Liqui_GetOrderbookEx d p assetType l = Liqui_UpdateOrderbook d p assetType l"
  using assms by (simp add: Liqui_GetOrderbookEx_def GetOrderbook_def)

lemma Liqui_GetOrderbookEx_miss:
  assumes "Orderbooks l (Name l, p, assetType) = None"
  shows "Liqui_GetOrderbookEx d p assetType l = (Return (zeroBase, None), l)"
  using assms by (simp add: Liqui_GetOrderbookEx_def GetOrderbook_def)

lemma Binance_GetOrderbookEx_hit:
  assumes "Orderbooks b (Name b, p, assetType) = Some ob"
  shows "Binance_GetOrderbookEx d p assetType b = Binance_UpdateOrderbook d p assetType b"
  using assms by (simp add: Binance_GetOrderbookEx_def GetOrderbook_def)

lemma Binance_GetOrderbookEx_miss:
  assumes "Orderbooks b (Name b, p, assetType) = None"
  shows "Binance_GetOrderbookEx d p assetType b = (Return (zeroBase, None), b)"
  using assms by (simp add: Binance_GetOrderbookEx_def GetOrderbook_def)

text \<open>
  C1. \<open>GetOrderbookEx\<close> of Liqui and of Binance on a cache miss (a driver that has stored
  no snapshot yet): the call returns the zero book with a nil error and leaves the driver
  as it was, so no fetch was made and nothing was stored, although the exchange would
  have answered the Liqui fetch with a depth. The test on the error is the reverse of the
  one \<open>GetTickerPrice\<close> makes.
\<close>

theorem GetOrderbookEx_cache_miss_returns_zero_book:
  "Orderbooks liqui0 (Name liqui0, ETHBTC, ''SPOT'') = None
   \<and> Liqui_GetOrderbookEx liquiDeps ETHBTC ''SPOT'' liqui0 = (Return (zeroBase, None), liqui0)
   \<and> fst (Liqui_UpdateOrderbook liquiDeps ETHBTC ''SPOT'' liqui0)
       = Return (\<lparr> Base_Bids = [\<lparr> Item_Price = 10, Item_Amount = 2 \<rparr>],
                   Base_Asks = [\<lparr> Item_Price = 11, Item_Amount = 1 \<rparr>] \<rparr>, None)
   \<and> Orderbooks binance0 (Name binance0, ETHBTC, ''SPOT'') = None
   \<and> Binance_GetOrderbookEx binanceApi ETHBTC ''SPOT'' binance0 = (Return (zeroBase, None), binance0)"
  by (simp add: Liqui_GetOrderbookEx_def Binance_GetOrderbookEx_def GetOrderbook_def
        Liqui_UpdateOrderbook_def GetDepth_def ProcessOrderbook_def liquiDeps_def Let_def
        liqui0_def binance0_def exchange0_def exchange_Base.extend_def)

section \<open>\<open>CancelOrder\<close>\<close>

lemma Binance_CancelOrder_parse_error:
  assumes "ParseInt orderID = (i, Some e)"
  shows "Binance_CancelOrder d orderID p b = (Some e, b)"
  using assms by (simp add: Binance_CancelOrder_def)

lemma Binance_CancelOrder_parsed:
  assumes "ParseInt orderID = (i, None)"
  shows "Binance_CancelOrder d orderID p b = DeleteOrder d (CurrencyPairToSymbol d p) i [] b"
  using assms by (simp add: Binance_CancelOrder_def)

lemma Gemini_CancelOrder_parse_error:
  assumes "ParseInt orderStr = (i, Some e)"
  shows "Gemini_CancelOrder c z now orderStr p g = (Some e, g)"
  using assms by (simp add: Gemini_CancelOrder_def)

lemma Gemini_CancelOrder_parsed:
  assumes "ParseInt orderStr = (i, None)"
  shows "Gemini_CancelOrder c z now orderStr p g
         = (snd (fst (CancelOrderEx c z now i g)), snd (CancelOrderEx c z now i g))"
  using assms by (simp add: Gemini_CancelOrder_def split: prod.splits)

lemma ParseInt_12345: "ParseInt ''12345'' = (12345, None)"
  by (simp add: ParseInt_def ParseUint_def is_digit10_def digit_of_def maxUint64_def)

lemma ParseInt_abc: "ParseInt ''abc'' = (0, Some (NumError ''ParseInt'' ''abc'' ErrSyntax))"
  by (simp add: ParseInt_def ParseUint_def is_digit10_def digit_of_def maxUint64_def)

text \<open>
  C4. \<open>CancelOrder\<close> of Kraken tests \<open>err == nil\<close> where those of Binance and Gemini
  test \<open>err != nil\<close> (\<open>Binance_CancelOrder_parsed\<close>, \<open>Gemini_CancelOrder_parse_error\<close>).
  For the order id "12345", which parses, it returns nil and leaves the driver as it
  was: no cancel request is made. For "abc", which does not parse, the parse error is
  dropped and the cancel request is made for the id 0 that \<open>ParseInt\<close> returned beside
  the error; with credentials set, that request goes out to the exchange.
\<close>

theorem Kraken_CancelOrder_inverted_test:
  "Kraken_CancelOrder c now ''12345'' k = (Return None, k)
   \<and> Kraken_CancelOrder c now ''abc'' k = cancelOrder c now 0 k
   \<and> calls (snd (Kraken_CancelOrder commonSim 1 ''abc'' (kraken0 True)))
       = [SendHTTPRequest ''POST'' ''https://api.kraken.com/0/private/CancelOrder''
            [(''API-Key'', ''key''), (''API-Sign'', ''/0/private/CancelOrder1nonce=1&txid=0'')]
            ''nonce=1&txid=0'']"
proof -
  have a: "Kraken_CancelOrder c now ''12345'' k = (Return None, k)"
    by (simp add: Kraken_CancelOrder_def ParseInt_12345)
  have b: "Kraken_CancelOrder c' now' ''abc'' k' = cancelOrder c' now' 0 k'" for c' now' and k' :: "'b Kraken"
    by (simp add: Kraken_CancelOrder_def ParseInt_abc)
  have f: "FormatInt 0 = ''0''" "FormatInt 1 = ''1''"
    by (simp_all add: FormatInt_def digit_char_def)
  have s: "calls (snd (cancelOrder commonSim 1 0 (kraken0 True)))
       = [SendHTTPRequest ''POST'' ''https://api.kraken.com/0/private/CancelOrder''
            [(''API-Key'', ''key''), (''API-Sign'', ''/0/private/CancelOrder1nonce=1&txid=0'')]
            ''nonce=1&txid=0'']"
    by (simp add: cancelOrder_def HTTPRequest_def HTTPRequestJSON_def HTTPRequestJSON_finish_def
          Kraken_SendAuthenticatedHTTPRequest_def commonSim_def kraken0_def exchange0_def
          exchange_Base.extend_def Values_Set_def Values_Get_def f Let_def
          KRAKEN_API_URL_def KRAKEN_API_VERSION_def KRAKEN_ORDER_CANCEL_def)
  show ?thesis
    using a b [of commonSim 1 "kraken0 True"] b [of c now k] s by simp
qed

section \<open>Authenticated requests without credentials\<close>

text \<open>
  C6. With authenticated API support off, \<open>SendAuthenticatedHTTPRequest\<close> of Kraken and of
  Gemini returns the credentials-missing error of the driver's name and leaves the driver
  as it was: no call went out, the nonce was not used, and the caller's values are
  untouched. The call returns (it neither panics nor ends the process), so the driver
  serves later calls.
\<close>

theorem SendAuthenticatedHTTPRequest_without_credentials:
  "(\<not> AuthenticatedAPISupport k \<longrightarrow>
      Kraken_SendAuthenticatedHTTPRequest c now meth vals k
        = ((Inl (WarningAuthenticatedRequestWithoutCredentialsSet (Name k)), vals), k))
   \<and> (\<not> AuthenticatedAPISupport g \<longrightarrow>
      Gemini_SendAuthenticatedHTTPRequest c' now' meth' path params g
        = (Inl (WarningAuthenticatedRequestWithoutCredentialsSet (Name g)), g))"
  by (simp add: Kraken_SendAuthenticatedHTTPRequest_def Gemini_SendAuthenticatedHTTPRequest_def)

theorem SendAuthenticatedHTTPRequest_without_credentials_witness:
  "\<not> AuthenticatedAPISupport (kraken0 False)
   \<and> Kraken_SendAuthenticatedHTTPRequest commonSim 1 ''Balance'' Map.empty (kraken0 False)
        = ((Inl (WarningAuthenticatedRequestWithoutCredentialsSet ''Kraken''), Map.empty), kraken0 False)
   \<and> calls (kraken0 False) = []
   \<and> \<not> AuthenticatedAPISupport (gemini0 False)
   \<and> Gemini_SendAuthenticatedHTTPRequest commonSim 1 ''POST'' ''balances'' None (gemini0 False)
        = (Inl (WarningAuthenticatedRequestWithoutCredentialsSet ''Gemini''), gemini0 False)
   \<and> calls (gemini0 False) = []"
proof -
  have h: "\<not> AuthenticatedAPISupport (kraken0 False)" "\<not> AuthenticatedAPISupport (gemini0 False)"
    "Name (kraken0 False) = ''Kraken''" "Name (gemini0 False) = ''Gemini''"
    "calls (kraken0 False) = []" "calls (gemini0 False) = []"
    by (simp_all add: kraken0_def gemini0_def exchange0_def exchange_Base.extend_def)
  show ?thesis
    using h SendAuthenticatedHTTPRequest_without_credentials
      [of "kraken0 False" commonSim 1 "''Balance''" Map.empty "gemini0 False" commonSim 1
          "''POST''" "''balances''" None]
    by simp
qed

section \<open>The session registry\<close>

text \<open>
  C10. \<open>AddSession\<close> with a session id the registry holds returns the error and leaves
  the package (the registry and every session object) as it was. With an id the registry
  does not hold (or a registry still nil) and a session \<open>a\<close>, it returns nil; the
  registry then maps the id to \<open>a\<close> and every other id as before, and the object at \<open>a\<close>
  has the given key, secret, role and heartbeat flag and the sandbox or the production
  address according to \<open>isSandbox\<close>; its other fields and all other objects are as before.
\<close>

theorem AddSession_registry:
  "(Session st = Some m \<and> m sessionID \<noteq> None \<longrightarrow>
      AddSession g sessionID apiKey apiSecret role needsHeartbeat isSandbox st
        = (Return (Some (ErrorString ''sessionID already being used'')), st))
   \<and> ((Session st = None \<and> m = Map.empty \<or> Session st = Some m \<and> m sessionID = None) \<longrightarrow>
      AddSession (Some a) sessionID apiKey apiSecret role needsHeartbeat isSandbox st
        = (Return None,
           st\<lparr>store := (store st)
                 (a := (store st a)
                    \<lparr>APIKey := apiKey, APISecret := apiSecret, Role := role,
                     RequiresHeartBeat := needsHeartbeat,
                     APIUrl := (if isSandbox then geminiSandboxAPIURL else geminiAPIURL)\<rparr>),
              Session := Some (m(sessionID \<mapsto> a))\<rparr>))"
proof -
  have dup: "AddSession g sessionID apiKey apiSecret role needsHeartbeat isSandbox st
        = (Return (Some (ErrorString ''sessionID already being used'')), st)"
    if "Session st = Some m" "m sessionID \<noteq> None"
  proof -
    have "st\<lparr>Session := Some m\<rparr> = st"
      using that(1) by simp
    then show ?thesis
      using that by (simp add: AddSession_def Let_def)
  qed
  have fresh: "AddSession (Some a) sessionID apiKey apiSecret role needsHeartbeat isSandbox st
        = (Return None,
           st\<lparr>store := (store st)
                 (a := (store st a)
                    \<lparr>APIKey := apiKey, APISecret := apiSecret, Role := role,
                     RequiresHeartBeat := needsHeartbeat,
                     APIUrl := (if isSandbox then geminiSandboxAPIURL else geminiAPIURL)\<rparr>),
              Session := Some (m(sessionID \<mapsto> a))\<rparr>)"
    if "Session st = None \<and> m = Map.empty \<or> Session st = Some m \<and> m sessionID = None"
    using that by (auto simp: AddSession_def Let_def)
  show ?thesis
    using dup fresh by blast
qed

theorem AddSession_registry_witness:
  "Session package0 = Some [1 \<mapsto> 0] \<and> [1 \<mapsto> 0] (1 :: int64) \<noteq> (None :: nat option)
   \<and> AddSession (Some 5) 1 ''k'' ''s'' ''trader'' True True package0
        = (Return (Some (ErrorString ''sessionID already being used'')), package0)
   \<and> [1 \<mapsto> 0] (2 :: int64) = (None :: nat option)
   \<and> fst (AddSession (Some 5) 2 ''k'' ''s'' ''trader'' True True package0) = Return None
   \<and> Session (snd (AddSession (Some 5) 2 ''k'' ''s'' ''trader'' True True package0))
        = Some [1 \<mapsto> 0, 2 \<mapsto> 5]
   \<and> APIUrl (store (snd (AddSession (Some 5) 2 ''k'' ''s'' ''trader'' True True package0)) 5)
        = ''https://api.sandbox.gemini.com''
   \<and> Role (store (snd (AddSession (Some 5) 2 ''k'' ''s'' ''trader'' True True package0)) 5) = ''trader''"
proof -
  have h: "Session package0 = Some [1 \<mapsto> 0]"
    by (simp add: package0_def)
  have p: "[1 \<mapsto> 0] (1 :: int64) \<noteq> (None :: nat option)" "[1 \<mapsto> 0] (2 :: int64) = (None :: nat option)"
    by simp_all
  note t1 = AddSession_registry [of package0 "[1 \<mapsto> 0]" 1 "Some 5" "''k''" "''s''" "''trader''" True True 5]
  note t2 = AddSession_registry [of package0 "[1 \<mapsto> 0]" 2 "Some 5" "''k''" "''s''" "''trader''" True True 5]
  have d: "AddSession (Some 5) 1 ''k'' ''s'' ''trader'' True True package0
        = (Return (Some (ErrorString ''sessionID already being used'')), package0)"
    using t1 h p by blast
  have f: "AddSession (Some 5) 2 ''k'' ''s'' ''trader'' True True package0
        = (Return None,
           package0\<lparr>store := (store package0)
                 (5 := (store package0 5)
                    \<lparr>APIKey := ''k'', APISecret := ''s'', Role := ''trader'',
                     RequiresHeartBeat := True,
                     APIUrl := (if True then geminiSandboxAPIURL else geminiAPIURL)\<rparr>),
              Session := Some ([1 \<mapsto> 0, 2 \<mapsto> 5])\<rparr>)"
    using t2 h p by blast
  show ?thesis
    using h p d by (simp add: f geminiSandboxAPIURL_def)
qed

section \<open>\<open>GetOrders\<close> and the rate limit\<close>

lemma GetOrders_loop_fetchEach:
  "fst (GetOrders_loop d ps n ret b)
   = (case find (\<lambda>r. hardError (snd r)) (fetchEach d (map (CurrencyPairToSymbol d) ps) b) of
        Some r \<Rightarrow> Inl (the (snd r))
      | None \<Rightarrow>
          Inr (n + length (filter rateLimited (fetchEach d (map (CurrencyPairToSymbol d) ps) b)),
               ret @ concat (map (\<lambda>r. map (convertOrderToExchangeOrder d) (fst r))
                               (fetchEach d (map (CurrencyPairToSymbol d) ps) b))))"
proof (induction ps arbitrary: n ret b)
  case Nil
  then show ?case by simp
next
  case (Cons p ps)
  obtain orders err b' where f: "FetchOpenOrders d (CurrencyPairToSymbol d p) b = ((orders, err), b')"
    by (metis prod.exhaust)
  have rl: "rateLimited (os, e) = (e = Some WarningHTTPRequestRateLimited)" for os :: "'a Order list" and e
    by (simp add: rateLimited_def)
  show ?case
  proof (cases "err = Some WarningHTTPRequestRateLimited")
    case True
    then show ?thesis
      using f Cons.IH [of "n + 1" "ret @ map (convertOrderToExchangeOrder d) orders" b']
      by (simp add: hardError_def rl split: option.splits)
  next
    case False
    show ?thesis
    proof (cases err)
      case None
      then show ?thesis
        using f Cons.IH [of n "ret @ map (convertOrderToExchangeOrder d) orders" b']
        by (simp add: hardError_def rl split: option.splits)
    next
      case (Some e)
      then show ?thesis
        using f False by (simp add: hardError_def)
    qed
  qed
qed

lemma length_fetchEach: "length (fetchEach d symbols b) = length symbols"
  by (induction symbols arbitrary: b) (auto split: prod.splits)

lemma filter_all_length: "(length (filter P rs) = length rs) = (\<forall>r\<in>set rs. P r)"
proof
  assume "length (filter P rs) = length rs"
  then have "filter P rs = rs"
    by (metis length_filter_less less_irrefl_nat filter_True)
  then show "\<forall>r\<in>set rs. P r"
    by (metis filter_id_conv)
next
  assume "\<forall>r\<in>set rs. P r"
  then show "length (filter P rs) = length rs" by simp
qed

text \<open>
  C8. \<open>GetOrders\<close> on a non-empty list of pairs, in terms of what \<open>FetchOpenOrders\<close>
  answers for the pairs in turn. If some answer carries an error that is not the
  rate-limit sentinel, the call fails with the first such error and a nil list. If none
  does, the call returns the orders of all answers, converted and in order, those that
  came with the sentinel included (the binding returns the orders of its last successful
  fetch with it); its error is the sentinel when every answer carried the sentinel, and
  nil otherwise. So the call returns the sentinel if and only if every pair was rate
  limited.
\<close>

theorem GetOrders_rate_limit_fallback:
  assumes "pairs \<noteq> []"
  shows "(case find (\<lambda>r. hardError (snd r)) (fetched d pairs b) of
            Some r \<Rightarrow> fst (GetOrders d pairs b) = (None, snd r)
          | None \<Rightarrow>
              fst (GetOrders d pairs b)
                = (Some (concat (map (\<lambda>r. map (convertOrderToExchangeOrder d) (fst r)) (fetched d pairs b))),
                   if (\<forall>r\<in>set (fetched d pairs b). rateLimited r)
                   then Some WarningHTTPRequestRateLimited else None))
       \<and> (snd (fst (GetOrders d pairs b)) = Some WarningHTTPRequestRateLimited
            \<longleftrightarrow> (\<forall>r\<in>set (fetched d pairs b). rateLimited r))"
proof -
  let ?rs = "fetched d pairs b"
  obtain res b' where loop: "GetOrders_loop d pairs 0 [] b = (res, b')"
    by (metis prod.exhaust)
  have len: "length ?rs = length pairs"
    by (simp add: fetched_def length_fetchEach)
  have res: "fst (GetOrders_loop d pairs 0 [] b) = res"
    using loop by simp
  note char = GetOrders_loop_fetchEach [of d pairs 0 "[]" b, folded fetched_def, unfolded res]
  show ?thesis
  proof (cases "find (\<lambda>r. hardError (snd r)) ?rs")
    case None
    have r: "res = Inr (length (filter rateLimited ?rs),
                      concat (map (\<lambda>r. map (convertOrderToExchangeOrder d) (fst r)) ?rs))"
      using char None by simp
    have g: "fst (GetOrders d pairs b)
        = (Some (concat (map (\<lambda>r. map (convertOrderToExchangeOrder d) (fst r)) ?rs)),
           if (\<forall>r\<in>set ?rs. rateLimited r) then Some WarningHTTPRequestRateLimited else None)"
      using assms loop r len filter_all_length [of rateLimited ?rs]
      by (simp add: GetOrders_def)
    show ?thesis
      using None g by simp
  next
    case (Some r)
    then have h: "hardError (snd r)" and m: "r \<in> set ?rs"
      by (auto simp: find_Some_iff)
    obtain e where e: "snd r = Some e" "e \<noteq> WarningHTTPRequestRateLimited"
      using h by (auto simp: hardError_def)
    have "res = Inl e"
      using char Some e by simp
    then have g: "fst (GetOrders d pairs b) = (None, snd r)"
      using assms loop e by (simp add: GetOrders_def)
    have "\<not> rateLimited r"
      using e by (simp add: rateLimited_def)
    then have "\<not> (\<forall>r\<in>set ?rs. rateLimited r)"
      using m by blast
    then show ?thesis
      using Some g e by simp
  qed
qed

theorem GetOrders_rate_limit_fallback_witness:
  "[ETHBTC, LTCBTC] \<noteq> []
   \<and> fetched binanceApi [ETHBTC, LTCBTC] binance0
       = [([order1], None), ([order2], Some WarningHTTPRequestRateLimited)]
   \<and> fst (GetOrders binanceApi [ETHBTC, LTCBTC] binance0)
       = (Some [convertOrderToExchangeOrder binanceApi order1,
                convertOrderToExchangeOrder binanceApi order2], None)
   \<and> fetched binanceApi [LTCBTC] binance0 = [([order2], Some WarningHTTPRequestRateLimited)]
   \<and> fst (GetOrders binanceApi [LTCBTC] binance0)
       = (Some [convertOrderToExchangeOrder binanceApi order2], Some WarningHTTPRequestRateLimited)"
proof -
  have n: "[ETHBTC, LTCBTC] \<noteq> []" "[LTCBTC] \<noteq> []"
    by simp_all
  have f2: "fetched binanceApi [ETHBTC, LTCBTC] binance0
       = [([order1], None), ([order2], Some WarningHTTPRequestRateLimited)]"
    by (simp add: fetched_def FetchOpenOrders_def binanceApi_def ETHBTC_def LTCBTC_def)
  have f1: "fetched binanceApi [LTCBTC] binance0 = [([order2], Some WarningHTTPRequestRateLimited)]"
    by (simp add: fetched_def FetchOpenOrders_def binanceApi_def LTCBTC_def)
  have g2: "fst (GetOrders binanceApi [ETHBTC, LTCBTC] binance0)
       = (Some [convertOrderToExchangeOrder binanceApi order1,
                convertOrderToExchangeOrder binanceApi order2], None)"
    using GetOrders_rate_limit_fallback [OF n(1), of binanceApi binance0]
    by (simp add: f2 hardError_def rateLimited_def)
  have g1: "fst (GetOrders binanceApi [LTCBTC] binance0)
       = (Some [convertOrderToExchangeOrder binanceApi order2], Some WarningHTTPRequestRateLimited)"
    using GetOrders_rate_limit_fallback [OF n(2), of binanceApi binance0]
    by (simp add: f1 hardError_def rateLimited_def)
  show ?thesis
    using n f1 f2 g1 g2 by simp
qed

section \<open>The nonces of Kraken's authenticated requests\<close>

lemma Kraken_step_nonce:
  assumes "AuthenticatedAPISupport k"
  shows "Nonce (snd (Kraken_SendAuthenticatedHTTPRequest c now meth vals k))
           = (if Nonce k = 0 then now else Nonce k + 1)"
    and "AuthenticatedAPISupport (snd (Kraken_SendAuthenticatedHTTPRequest c now meth vals k))"
    and "snd (fst (Kraken_SendAuthenticatedHTTPRequest c now meth vals k)) ''nonce''
           = Some [FormatInt (if Nonce k = 0 then now else Nonce k + 1)]"
  using assms
  by (auto simp: Kraken_SendAuthenticatedHTTPRequest_def Let_def Values_Set_def
      split: prod.splits option.splits sum.splits)

lemma Kraken_nonces_Cons:
  "Kraken_nonces c ((now, meth, vals) # rest) k
   = Nonce (snd (Kraken_SendAuthenticatedHTTPRequest c now meth vals k))
     # Kraken_nonces c rest (snd (Kraken_SendAuthenticatedHTTPRequest c now meth vals k))"
  by (simp split: prod.splits)

lemma sint_add_nat:
  fixes w :: int64
  assumes "0 < sint w" "sint w + int i < 2 ^ 63"
  shows "sint (w + of_nat i) = sint w + int i"
proof -
  have e: "w + of_nat i = word_of_int (sint w + int i)"
    by simp
  have "sint (w + of_nat i) = sint (word_of_int (sint w + int i) :: int64)"
    by (simp only: e)
  also have "\<dots> = signed_take_bit (LENGTH(64) - 1) (sint w + int i)"
    by (rule sint_sbintrunc')
  also have "\<dots> = sint w + int i"
    using assms by (intro signed_take_bit_int_eq_self) simp_all
  finally show ?thesis .
qed

lemma map_upt_Suc_shift: "map f [0..<Suc n] = f 0 # map (\<lambda>i. f (Suc i)) [0..<n]"
  by (induction n) simp_all

lemma Kraken_nonces_from:
  assumes "AuthenticatedAPISupport k" "0 < sint (Nonce k)"
    and "sint (Nonce k) + int (length cs) < 2 ^ 63"
  shows "Kraken_nonces c cs k = map (\<lambda>i. Nonce k + 1 + of_nat i) [0..<length cs]"
  using assms
proof (induction cs arbitrary: k)
  case Nil
  then show ?case by simp
next
  case (Cons x rest)
  obtain now meth vals where x: "x = (now, meth, vals)"
    by (cases x) auto
  let ?k' = "snd (Kraken_SendAuthenticatedHTTPRequest c now meth vals k)"
  have nz: "Nonce k \<noteq> 0"
    using Cons.prems(2) by auto
  have n': "Nonce ?k' = Nonce k + 1"
    using Kraken_step_nonce(1) [OF Cons.prems(1), of c now meth vals] nz by simp
  have s': "sint (Nonce ?k') = sint (Nonce k) + 1"
    using sint_add_nat [of "Nonce k" 1] Cons.prems(2,3) n' by simp
  have ih: "Kraken_nonces c rest ?k' = map (\<lambda>i. Nonce ?k' + 1 + of_nat i) [0..<length rest]"
    using Cons.IH [of ?k'] Kraken_step_nonce(2) [OF Cons.prems(1), of c now meth vals] s' Cons.prems(2,3) by simp
  have "Kraken_nonces c (x # rest) k = Nonce ?k' # Kraken_nonces c rest ?k'"
    by (simp only: x Kraken_nonces_Cons)
  also have "\<dots> = (Nonce k + 1) # map (\<lambda>i. Nonce k + 1 + of_nat (Suc i)) [0..<length rest]"
    by (simp add: ih n' add.assoc add.commute)
  also have "\<dots> = map (\<lambda>i. Nonce k + 1 + of_nat i) [0..<Suc (length rest)]"
    by (simp only: map_upt_Suc_shift [of "\<lambda>i. Nonce k + 1 + of_nat i"]) simp
  finally show ?case by simp
qed

text \<open>
  C5, as amended. One credential of Kraken, its counter still 0, signs a run of
  authenticated requests; \<open>seed\<close> is the reading of the clock at the first of them. If
  \<open>seed\<close> is positive and the run is short enough for \<open>seed\<close> plus the number of later
  requests to stay below \<open>2 ^ 63\<close>, the first nonce is \<open>seed\<close>, every later nonce is the
  one before plus 1 (whatever the clock reads then), and the nonces are strictly
  increasing.
\<close>

theorem Kraken_nonces_strictly_increasing:
  assumes "AuthenticatedAPISupport k" "Nonce k = 0"
    and "0 < sint seed" "sint seed + int (length rest) < 2 ^ 63"
  shows "Kraken_nonces c ((seed, meth, vals) # rest) k
           = map (\<lambda>i. seed + of_nat i) [0..<Suc (length rest)]
       \<and> strictlyIncreasing (Kraken_nonces c ((seed, meth, vals) # rest) k)"
proof -
  let ?k' = "snd (Kraken_SendAuthenticatedHTTPRequest c seed meth vals k)"
  have n': "Nonce ?k' = seed"
    using Kraken_step_nonce(1) [OF assms(1), of c seed meth vals] assms(2) by simp
  have later: "Kraken_nonces c rest ?k' = map (\<lambda>i. seed + 1 + of_nat i) [0..<length rest]"
    using Kraken_nonces_from [of ?k' rest c] Kraken_step_nonce(2) [OF assms(1), of c seed meth vals] n' assms(3,4)
    by simp
  have "Kraken_nonces c ((seed, meth, vals) # rest) k
          = seed # map (\<lambda>i. seed + of_nat (Suc i)) [0..<length rest]"
    by (simp only: Kraken_nonces_Cons later n') (simp add: add.assoc add.commute)
  also have "\<dots> = map (\<lambda>i. seed + of_nat i) [0..<Suc (length rest)]"
    by (simp only: map_upt_Suc_shift [of "\<lambda>i. seed + of_nat i"]) simp
  finally have eq: "Kraken_nonces c ((seed, meth, vals) # rest) k
           = map (\<lambda>i. seed + of_nat i) [0..<Suc (length rest)]" .
  have mono: "sint (seed + of_nat i) < sint (seed + of_nat j)"
    if "i < j" "j \<in> set [0..<Suc (length rest)]" for i j :: nat
  proof -
    have j: "sint seed + int j < 2 ^ 63" and i: "sint seed + int i < 2 ^ 63"
      using that assms(4) by auto
    show ?thesis
      using sint_add_nat [OF assms(3) i] sint_add_nat [OF assms(3) j] that(1) by simp
  qed
  have "sorted_wrt (\<lambda>i j. sint (seed + of_nat i) < sint (seed + of_nat j)) [0..<Suc (length rest)]"
    using sorted_wrt_mono_rel [of "[0..<Suc (length rest)]" "(<)"
        "\<lambda>i j. sint (seed + of_nat i) < sint (seed + of_nat j)"] mono sorted_wrt_upt
    by blast
  then have "strictlyIncreasing (map (\<lambda>i. seed + of_nat i) [0..<Suc (length rest)])"
    by (simp only: strictlyIncreasing_def sorted_wrt_map)
  then show ?thesis
    using eq by simp
qed

theorem Kraken_nonces_strictly_increasing_witness:
  "AuthenticatedAPISupport (kraken0 True) \<and> Nonce (kraken0 True) = 0
   \<and> 0 < sint (1500000000000000000 :: int64)
   \<and> sint (1500000000000000000 :: int64) + int (length [(5 :: int64, ''Balance'', Map.empty :: Values)]) < 2 ^ 63
   \<and> Kraken_nonces commonSim
        [(1500000000000000000, ''Balance'', Map.empty), (5, ''Balance'', Map.empty)] (kraken0 True)
       = [1500000000000000000, 1500000000000000001]
   \<and> strictlyIncreasing (Kraken_nonces commonSim
        [(1500000000000000000, ''Balance'', Map.empty), (5, ''Balance'', Map.empty)] (kraken0 True))"
proof -
  have h: "AuthenticatedAPISupport (kraken0 True)" "Nonce (kraken0 True) = 0"
    by (simp_all add: kraken0_def exchange0_def exchange_Base.extend_def)
  have s: "0 < sint (1500000000000000000 :: int64)"
    "sint (1500000000000000000 :: int64) + int (length [(5 :: int64, ''Balance'', Map.empty :: Values)]) < 2 ^ 63"
    by simp_all
  have u: "map (\<lambda>i. (1500000000000000000 :: int64) + of_nat i) [0..<Suc (length [(5 :: int64, ''Balance'', Map.empty :: Values)])]
      = [1500000000000000000, 1500000000000000001]"
    by (simp add: upt_rec)
  note t = Kraken_nonces_strictly_increasing [OF h s, of commonSim "''Balance''" Map.empty, unfolded u]
  show ?thesis
    using h s t by blast
qed

text \<open>
  C5, as stated, fails at the upper end of \<open>int64\<close> and at a clock that reads 0. Seeded
  with \<open>2 ^ 63 - 1\<close>, the counter wraps to \<open>- 2 ^ 63\<close> at the second request. Seeded with
  0, the counter still reads as unset at the second request and is seeded again: the
  nonce 0 is used twice.
\<close>

theorem Kraken_nonces_not_always_increasing:
  "Kraken_nonces commonSim
      [(9223372036854775807, ''Balance'', Map.empty), (9223372036854775807, ''Balance'', Map.empty)]
      (kraken0 True)
     = [9223372036854775807, - 9223372036854775808]
   \<and> \<not> strictlyIncreasing (Kraken_nonces commonSim
      [(9223372036854775807, ''Balance'', Map.empty), (9223372036854775807, ''Balance'', Map.empty)]
      (kraken0 True))
   \<and> Kraken_nonces commonSim [(0, ''Balance'', Map.empty), (0, ''Balance'', Map.empty)] (kraken0 True)
     = [0, 0]
   \<and> \<not> strictlyIncreasing (Kraken_nonces commonSim
      [(0, ''Balance'', Map.empty), (0, ''Balance'', Map.empty)] (kraken0 True))"
proof -
  have h: "AuthenticatedAPISupport (kraken0 True)" "Nonce (kraken0 True) = 0"
    by (simp_all add: kraken0_def exchange0_def exchange_Base.extend_def)
  have a: "Kraken_nonces commonSim
      [(9223372036854775807, ''Balance'', Map.empty), (9223372036854775807, ''Balance'', Map.empty)]
      (kraken0 True)
     = [9223372036854775807, - 9223372036854775808]"
    by (simp only: Kraken_nonces_Cons Kraken_nonces.simps Kraken_step_nonce h) simp
  have b: "Kraken_nonces commonSim [(0, ''Balance'', Map.empty), (0, ''Balance'', Map.empty)] (kraken0 True)
     = [0, 0]"
    by (simp only: Kraken_nonces_Cons Kraken_nonces.simps Kraken_step_nonce h) simp
  have c: "\<not> strictlyIncreasing [9223372036854775807, - 9223372036854775808]"
    "\<not> strictlyIncreasing [0, 0]"
    by (simp_all add: strictlyIncreasing_def)
  show ?thesis
    using a b c by simp
qed


end
